theory Spec2Isabelle
  imports Complex_Main
begin

section \<open>Degree-of-freedom vectors and operators\<close>

text \<open>
  A state of the discretised function space \<open>V\<close> is its vector of degrees of freedom;
  an assembled operator is a list of rows. The floating-point numbers of the source are
  read as real numbers: the properties below are about which linear system each scheme
  hands to the solver, not about rounding.
\<close>

type_synonym vec = "real list"
type_synonym matrix = "real list list"

definition vadd :: "vec \<Rightarrow> vec \<Rightarrow> vec" where
  "vadd x y = map2 (+) x y"

definition smul :: "real \<Rightarrow> vec \<Rightarrow> vec" where
  "smul a x = map ((*) a) x"

definition vneg :: "vec \<Rightarrow> vec" where
  "vneg x = map uminus x"

text \<open>\<^verbatim>\<open>y.axpy(a, x)\<close> is \<open>y += a * x\<close>.\<close>

definition axpy :: "real \<Rightarrow> vec \<Rightarrow> vec \<Rightarrow> vec" where
  "axpy a x y = vadd y (smul a x)"

text \<open>\<^verbatim>\<open>L.mult(x, y)\<close> stores the product \<open>L x\<close> in \<open>y\<close>.\<close>

definition mult :: "matrix \<Rightarrow> vec \<Rightarrow> vec" where
  "mult L x = map (\<lambda>row. sum_list (map2 (*) row x)) L"

definition madd :: "matrix \<Rightarrow> matrix \<Rightarrow> matrix" where
  "madd P Q = map2 vadd P Q"

definition msmul :: "real \<Rightarrow> matrix \<Rightarrow> matrix" where
  "msmul a P = map (smul a) P"

section \<open>Errors, objects and the linear-algebra backend\<close>

datatype error = AssertionError | IndexError | NotImplementedError | RuntimeError | ValueError

text \<open>
  Matrices and functions are objects: a stepper holds a reference to its mass matrix, a
  caller holds references to its states. The store maps references to the current
  contents of the objects, \<open>next_addr\<close> is the first reference not yet handed out, and
  \<open>n_solves\<close> counts the linear solves started so far.
\<close>

record store =
  mats :: "nat \<Rightarrow> matrix"
  vecs :: "nat \<Rightarrow> vec"
  next_addr :: nat
  n_solves :: nat

definition alloc_mat :: "matrix \<Rightarrow> store \<Rightarrow> nat \<times> store" where
  "alloc_mat P st =
     (next_addr st, st\<lparr>mats := (mats st)(next_addr st := P), next_addr := Suc (next_addr st)\<rparr>)"

definition alloc_vec :: "vec \<Rightarrow> store \<Rightarrow> nat \<times> store" where
  "alloc_vec x st =
     (next_addr st, st\<lparr>vecs := (vecs st)(next_addr st := x), next_addr := Suc (next_addr st)\<rparr>)"

text \<open>The entries of \<^verbatim>\<open>solver.parameters\<close> the steppers set.\<close>

record solver_parameters =
  relative_tolerance :: real
  absolute_tolerance :: real
  maximum_iterations :: int
  monitor_convergence :: bool

text \<open>
  The finite-element library is not part of the repository; what the steppers call of it
  is a parameter of the model. \<open>bc_apply bc A rhs\<close> is \<^verbatim>\<open>bc.apply(A, rhs)\<close>, which
  overwrites its two arguments and nothing else; \<open>krylov_solve method pc params A P rhs\<close>
  is a \<^verbatim>\<open>KrylovSolver(method, pc)\<close> with the given parameters, operator \<open>A\<close> and, when
  given, preconditioning operator \<open>P\<close>, solving for the right-hand side \<open>rhs\<close>; it
  returns the solution or fails.
\<close>

record 'bc backend =
  bc_apply :: "'bc \<Rightarrow> matrix \<Rightarrow> vec \<Rightarrow> matrix \<times> vec"
  krylov_solve ::
    "string \<Rightarrow> string \<Rightarrow> solver_parameters \<Rightarrow> matrix \<Rightarrow> matrix option \<Rightarrow> vec \<Rightarrow> error + vec"

section \<open>The problem contract\<close>

text \<open>
  A problem is an object of a class derived from \<^verbatim>\<open>ParabolicProblem\<close> that has a function
  space \<open>V\<close>, as every stepper requires of it. The space and the measure enter the steppers
  only through the mass form \<^verbatim>\<open>u * v * dx_multiplier * dx\<close>: \<open>mass_form\<close> is the matrix
  \<^verbatim>\<open>assemble\<close> returns for it, and assembling \<^verbatim>\<open>u0 * v * dx_multiplier * dx\<close> for a
  state \<open>u0\<close> of \<open>V\<close> gives that matrix applied to the degrees of freedom of \<open>u0\<close>. A
  method the derived class leaves to the base class raises: \<open>get_system\<close> and \<open>get_bcs\<close>
  then return \<open>Inl NotImplementedError\<close>, \<open>get_preconditioner\<close> returns \<open>None\<close>.
\<close>

record 'bc problem =
  mass_form :: matrix
  get_system :: "real \<Rightarrow> error + matrix \<times> vec"
  get_bcs :: "real \<Rightarrow> error + 'bc list"
  get_preconditioner :: "real \<Rightarrow> matrix option"

section \<open>Dummy\<close>

text \<open>
  \<^verbatim>\<open>u1 = Function(V); u1.interpolate(u0); return u1\<close>: a new function object receives the
  interpolation of \<open>u0\<close> into \<open>V\<close>, which for a state of \<open>V\<close> is a copy of its degrees of
  freedom. The boundary conditions, the tolerance and the verbose flag are not read.
\<close>

definition Dummy_step ::
  "'bc problem \<Rightarrow> nat \<Rightarrow> real \<Rightarrow> real \<Rightarrow> 'bc list \<Rightarrow> real \<Rightarrow> bool \<Rightarrow> store \<Rightarrow> (error + nat) \<times> store" where
  "Dummy_step prob u0 t dt bcs1 tol verbose st =
     (let (u1, st1) = alloc_vec [] st;
          st2 = st1\<lparr>vecs := (vecs st1)(u1 := vecs st1 u0)\<rparr>
      in (Inr u1, st2))"

section \<open>The single-step schemes\<close>

text \<open>
  Each of the three classes keeps the problem and a reference \<open>M\<close> to the mass matrix its
  constructor assembles.
\<close>

record 'bc stepper =
  problem :: "'bc problem"
  M :: nat

definition ExplicitEuler_init :: "'bc problem \<Rightarrow> store \<Rightarrow> 'bc stepper \<times> store" where
  "ExplicitEuler_init prob st =
     (let (m, st1) = alloc_mat (mass_form prob) st in (\<lparr>problem = prob, M = m\<rparr>, st1))"

definition ImplicitEuler_init :: "'bc problem \<Rightarrow> store \<Rightarrow> 'bc stepper \<times> store" where
  "ImplicitEuler_init prob st =
     (let (m, st1) = alloc_mat (mass_form prob) st in (\<lparr>problem = prob, M = m\<rparr>, st1))"

definition Trapezoidal_init :: "'bc problem \<Rightarrow> store \<Rightarrow> 'bc stepper \<times> store" where
  "Trapezoidal_init prob st =
     (let (m, st1) = alloc_mat (mass_form prob) st in (\<lparr>problem = prob, M = m\<rparr>, st1))"

text \<open>
  \<^verbatim>\<open>for bc in bcs: bc.apply(A, rhs)\<close>, where \<open>A\<close> is a reference: every application
  overwrites the matrix object \<open>A\<close> refers to, and the local vector \<open>rhs\<close>.
\<close>

fun apply_bcs :: "'bc backend \<Rightarrow> 'bc list \<Rightarrow> nat \<Rightarrow> vec \<Rightarrow> store \<Rightarrow> vec \<times> store" where
  "apply_bcs be [] A rhs st = (rhs, st)"
| "apply_bcs be (bc # bcs) A rhs st =
     (case bc_apply be bc (mats st A) rhs of
        (A', rhs') \<Rightarrow> apply_bcs be bcs A rhs' (st\<lparr>mats := (mats st)(A := A')\<rparr>))"

text \<open>
  \<^verbatim>\<open>solver.solve(u1.vector(), rhs)\<close>: one more solve is started; its solution is written
  into the object \<open>u1\<close>, its failure is the failure of the step.
\<close>

definition solver_solve ::
  "'bc backend \<Rightarrow> string \<Rightarrow> string \<Rightarrow> solver_parameters \<Rightarrow> matrix \<Rightarrow> matrix option \<Rightarrow>
   nat \<Rightarrow> vec \<Rightarrow> store \<Rightarrow> (error + unit) \<times> store" where
  "solver_solve be krylov pc params A P u1 rhs st =
     (let st1 = st\<lparr>n_solves := Suc (n_solves st)\<rparr>
      in case krylov_solve be krylov pc params A P rhs of
           Inl e \<Rightarrow> (Inl e, st1)
         | Inr x \<Rightarrow> (Inr (), st1\<lparr>vecs := (vecs st1)(u1 := x)\<rparr>))"

definition ExplicitEuler_step ::
  "'bc backend \<Rightarrow> 'bc stepper \<Rightarrow> nat \<Rightarrow> nat \<Rightarrow> real \<Rightarrow> real \<Rightarrow> real \<Rightarrow> int \<Rightarrow> bool \<Rightarrow>
   store \<Rightarrow> (error + unit) \<times> store" where
  "ExplicitEuler_step be self u1 u0 t dt tol maxiter verbose st =
     (case get_system (problem self) t of
        Inl e \<Rightarrow> (Inl e, st)
      | Inr (L, b) \<Rightarrow>
          let Lu0 = mult L (vecs st u0);
              rhs = mult (mass_form (problem self)) (vecs st u0);
              rhs = axpy dt (vadd (vneg Lu0) b) rhs;
              A = M self
          in (case get_bcs (problem self) (t + dt) of
                Inl e \<Rightarrow> (Inl e, st)
              | Inr bcs \<Rightarrow>
                  (case apply_bcs be bcs A rhs st of
                     (rhs, st1) \<Rightarrow>
                       solver_solve be ''cg'' ''amg''
                         \<lparr>relative_tolerance = tol, absolute_tolerance = 0,
                          maximum_iterations = maxiter, monitor_convergence = verbose\<rparr>
                         (mats st1 A) None u1 rhs st1)))"

definition ImplicitEuler_step ::
  "'bc backend \<Rightarrow> 'bc stepper \<Rightarrow> nat \<Rightarrow> nat \<Rightarrow> real \<Rightarrow> real \<Rightarrow> real \<Rightarrow> int \<Rightarrow> bool \<Rightarrow>
   string \<Rightarrow> string \<Rightarrow> store \<Rightarrow> (error + unit) \<times> store" where
  "ImplicitEuler_step be self u1 u0 t dt tol maxiter verbose krylov preconditioner st =
     (case get_system (problem self) (t + dt) of
        Inl e \<Rightarrow> (Inl e, st)
      | Inr (L, b) \<Rightarrow>
          (case alloc_mat (madd (mats st (M self)) (msmul dt L)) st of
             (A, st1) \<Rightarrow>
               let rhs = mult (mass_form (problem self)) (vecs st1 u0);
                   rhs = axpy dt b rhs
               in (case get_bcs (problem self) (t + dt) of
                     Inl e \<Rightarrow> (Inl e, st1)
                   | Inr bcs \<Rightarrow>
                       (case apply_bcs be bcs A rhs st1 of
                          (rhs, st2) \<Rightarrow>
                            solver_solve be krylov preconditioner
                              \<lparr>relative_tolerance = tol, absolute_tolerance = 0,
                               maximum_iterations = maxiter, monitor_convergence = verbose\<rparr>
                              (mats st2 A)
                              (case get_preconditioner (problem self) (t + dt) of
                                 Some P \<Rightarrow> Some (madd (mats st2 (M self)) (msmul dt P))
                               | None \<Rightarrow> None)
                              u1 rhs st2))))"

definition Trapezoidal_step ::
  "'bc backend \<Rightarrow> 'bc stepper \<Rightarrow> nat \<Rightarrow> nat \<Rightarrow> real \<Rightarrow> real \<Rightarrow> real \<Rightarrow> bool \<Rightarrow> int \<Rightarrow>
   string \<Rightarrow> string \<Rightarrow> store \<Rightarrow> (error + unit) \<times> store" where
  "Trapezoidal_step be self u1 u0 t dt tol verbose maxiter krylov preconditioner st =
     (case get_system (problem self) t of
        Inl e \<Rightarrow> (Inl e, st)
      | Inr (L0, b0) \<Rightarrow>
          (case get_system (problem self) (t + dt) of
             Inl e \<Rightarrow> (Inl e, st)
           | Inr (L1, b1) \<Rightarrow>
               let Lu0 = mult L0 (vecs st u0);
                   rhs = mult (mass_form (problem self)) (vecs st u0);
                   rhs = axpy (- dt * 0.5) Lu0 rhs;
                   rhs = axpy (dt * 0.5) (vadd b0 b1) rhs
               in (case alloc_mat (madd (mats st (M self)) (msmul (0.5 * dt) L1)) st of
                     (A, st1) \<Rightarrow>
                       (case get_bcs (problem self) (t + dt) of
                          Inl e \<Rightarrow> (Inl e, st1)
                        | Inr bcs \<Rightarrow>
                            (case apply_bcs be bcs A rhs st1 of
                               (rhs, st2) \<Rightarrow>
                                 solver_solve be krylov preconditioner
                                   \<lparr>relative_tolerance = tol, absolute_tolerance = 0,
                                    maximum_iterations = maxiter, monitor_convergence = verbose\<rparr>
                                   (mats st2 A) None u1 rhs st2)))))"

section \<open>Systems as the schemes are written on paper\<close>

text \<open>
  The constraints of a list applied in order to a pair of an operator and a right-hand
  side, as values.
\<close>

definition constrained :: "'bc backend \<Rightarrow> 'bc list \<Rightarrow> matrix \<times> vec \<Rightarrow> matrix \<times> vec" where
  "constrained be bcs sys = fold (\<lambda>bc (A, rhs). bc_apply be bc A rhs) bcs sys"

definition vsub :: "vec \<Rightarrow> vec \<Rightarrow> vec" where
  "vsub x y = map2 (-) x y"

section \<open>A small backend for examples\<close>

text \<open>
  A Dirichlet condition on one degree of freedom, \<open>(d, g)\<close>: applying it replaces row \<open>d\<close>
  of the operator by the row of the identity and entry \<open>d\<close> of the right-hand side by
  \<open>g\<close>. The example solver handles diagonal operators and reports every other one as a
  failure.
\<close>

definition unit_row :: "nat \<Rightarrow> nat \<Rightarrow> vec" where
  "unit_row n d = map (\<lambda>j. if j = d then 1 else 0) [0..<n]"

definition dof_apply :: "nat \<times> real \<Rightarrow> matrix \<Rightarrow> vec \<Rightarrow> matrix \<times> vec" where
  "dof_apply bc A rhs = (A[fst bc := unit_row (length A) (fst bc)], rhs[fst bc := snd bc])"

definition is_diagonal :: "matrix \<Rightarrow> bool" where
  "is_diagonal A =
     list_all (\<lambda>i. length (A ! i) = length A
                  \<and> list_all (\<lambda>j. if j = i then A ! i ! j \<noteq> 0 else A ! i ! j = 0) [0..<length A])
       [0..<length A]"

definition diagonal_solve ::
  "string \<Rightarrow> string \<Rightarrow> solver_parameters \<Rightarrow> matrix \<Rightarrow> matrix option \<Rightarrow> vec \<Rightarrow> error + vec" where
  "diagonal_solve krylov pc params A P rhs =
     (if is_diagonal A \<and> length rhs = length A
      then Inr (map (\<lambda>i. rhs ! i / A ! i ! i) [0..<length A])
      else Inl RuntimeError)"

definition example_backend :: "(nat \<times> real) backend" where
  "example_backend = \<lparr>bc_apply = dof_apply, krylov_solve = diagonal_solve\<rparr>"

definition example_problem :: "(nat \<times> real) problem" where
  "example_problem =
     \<lparr>mass_form = [[2, 0], [0, 2]],
      get_system = (\<lambda>t. Inr ([[1, 0], [0, 1]], [t, t])),
      get_bcs = (\<lambda>t. Inr [(0, 5 * t)]),
      get_preconditioner = (\<lambda>t. None)\<rparr>"

text \<open>
  A stepper for the example problem whose mass matrix is object 2 of the example store;
  objects 0 and 1 are the states \<open>u0\<close> and \<open>u1\<close> of a caller.
\<close>

definition example_stepper :: "(nat \<times> real) stepper" where
  "example_stepper = \<lparr>problem = example_problem, M = 2\<rparr>"

definition example_store :: store where
  "example_store =
     \<lparr>mats = (\<lambda>a. if a = 2 then [[2, 0], [0, 2]] else []), vecs = (\<lambda>a. [1, 1]),
      next_addr = 3, n_solves = 0\<rparr>"

text \<open>
  The same problem with its constraint lifted after time 1, and a stepper for it.
\<close>

definition released_problem :: "(nat \<times> real) problem" where
  "released_problem =
     \<lparr>mass_form = [[2, 0], [0, 2]],
      get_system = (\<lambda>t. Inr ([[1, 0], [0, 1]], [t, t])),
      get_bcs = (\<lambda>t. Inr (if t \<le> 1 then [(0, 5 * t)] else [])),
      get_preconditioner = (\<lambda>t. None)\<rparr>"

definition released_stepper :: "(nat \<times> real) stepper" where
  "released_stepper = \<lparr>problem = released_problem, M = 2\<rparr>"

text \<open>
  A store of a caller of \<open>Dummy\<close>: two states with different contents, and four solves
  made before.
\<close>

definition dummy_store :: store where
  "dummy_store =
     \<lparr>mats = (\<lambda>a. []), vecs = (\<lambda>a. if a = 0 then [1, 2] else if a = 1 then [7] else []),
      next_addr = 2, n_solves = 4\<rparr>"

section \<open>The explicit Runge-Kutta driver\<close>

text \<open>
  \<^verbatim>\<open>Expression(code, t=...)\<close>: the printed code of a (differentiated) boundary expression
  and the value of its parameter \<open>t\<close>, at which it is evaluated.
\<close>

record 'e expression =
  code :: 'e
  t_param :: real

text \<open>
  \<^verbatim>\<open>DirichletBC(V, expression, boundary)\<close>. The constraint evaluates the expression it was
  built from; \<open>attr_t\<close> is the attribute \<open>t\<close> of the constraint object itself, which the
  constructor does not set and an assignment \<^verbatim>\<open>g.t = x\<close> to a constraint \<open>g\<close> does.
\<close>

record ('e, 'b) DirichletBC =
  bc_value :: "'e expression"
  bc_boundary :: 'b
  attr_t :: "real option"

text \<open>
  The right-hand sides of the variational problems \<^verbatim>\<open>u * v * dx == rhs\<close>: a form returned
  by the caller's \<open>F\<close>, or the mass form \<^verbatim>\<open>w * v * dx\<close> of a function \<open>w\<close>.
\<close>

datatype 'f form = UserForm 'f | MassForm vec

text \<open>The dictionary \<^verbatim>\<open>solver_params\<close>.\<close>

record variational_parameters =
  sp_linear_solver :: string
  sp_symmetric :: bool
  sp_preconditioner :: string
  sp_krylov_solver :: solver_parameters

text \<open>
  One call \<^verbatim>\<open>solve(u * v * dx == rhs, x, bcs=..., solver_parameters=...)\<close>; a run of the
  driver returns, beside its result, the list of the calls it made, in order.
\<close>

record ('f, 'e, 'b) solve_call =
  sc_form :: "'f form"
  sc_bcs :: "('e, 'b) DirichletBC list"
  sc_parameters :: variational_parameters

text \<open>
  \<^verbatim>\<open>A = numpy.array(A)\<close> followed by
  \<^verbatim>\<open>assert numpy.all(abs(A[numpy.triu_indices(s)]) < 1.0e-15)\<close>. Rows of different lengths
  do not make an array of numbers: the conversion raises. An empty list becomes a
  one-dimensional array, which two index arrays cannot index. Otherwise \<open>A\<close> is an array
  of \<open>length A\<close> rows and \<open>length (hd A)\<close> columns, and an index outside it raises.
\<close>

definition triu_indices :: "nat \<Rightarrow> (nat \<times> nat) list" where
  "triu_indices s = concat (map (\<lambda>i. map (\<lambda>j. (i, j)) [i..<s]) [0..<s])"

definition explicit_check :: "matrix \<Rightarrow> nat \<Rightarrow> error + unit" where
  "explicit_check A s =
     (if \<not> list_all (\<lambda>row. length row = length (hd A)) A
      then Inl ValueError
      else if A = [] \<or> list_ex (\<lambda>(i, j). \<not> (i < length A \<and> j < length (hd A))) (triu_indices s)
      then Inl IndexError
      else if list_all (\<lambda>(i, j). \<bar>A ! i ! j\<bar> < 1 / 10 ^ 15) (triu_indices s)
      then Inr ()
      else Inl AssertionError)"

text \<open>
  The inner loop of the construction of \<^verbatim>\<open>BCS\<close>, for the \<open>k\<close>-th derivative;
  \<open>sympy_diff expr k\<close> is \<^verbatim>\<open>sympy.diff(expr, tt, k)\<close>.
\<close>

definition make_bcs ::
  "('e \<Rightarrow> nat \<Rightarrow> 'e) \<Rightarrow> ('b \<times> 'e) list \<Rightarrow> real \<Rightarrow> real \<Rightarrow> nat \<Rightarrow> ('e, 'b) DirichletBC list" where
  "make_bcs sympy_diff sympy_dirichlet_bcs t dt k =
     map (\<lambda>(boundary, expr).
            \<lparr>bc_value = \<lparr>code = sympy_diff expr k, t_param = t + dt\<rparr>,
             bc_boundary = boundary, attr_t = None\<rparr>)
       sympy_dirichlet_bcs"

text \<open>\<^verbatim>\<open>g.t = x\<close> for a constraint \<open>g\<close>.\<close>

definition set_t :: "real \<Rightarrow> ('e, 'b) DirichletBC \<Rightarrow> ('e, 'b) DirichletBC" where
  "set_t x g = g\<lparr>attr_t := Some x\<rparr>"

text \<open>\<^verbatim>\<open>U = u0; for j in range(i): U += ddt * A[i][j] * k[j]\<close>.\<close>

definition stage_state :: "matrix \<Rightarrow> real \<Rightarrow> vec \<Rightarrow> vec list \<Rightarrow> nat \<Rightarrow> vec" where
  "stage_state A dt u0 k i = fold (\<lambda>j U. vadd U (smul (dt * A ! i ! j) (k ! j))) [0..<i] u0"

text \<open>
  The loop over the stages; \<open>k\<close> holds the stage values found so far, \<open>bcs1\<close> the list
  \<^verbatim>\<open>BCS[1]\<close>, \<open>tr\<close> the calls made so far.
\<close>

fun stages ::
  "('f form \<Rightarrow> ('e, 'b) DirichletBC list \<Rightarrow> variational_parameters \<Rightarrow> error + vec) \<Rightarrow>
   (real \<Rightarrow> vec \<Rightarrow> 'f) \<Rightarrow> matrix \<Rightarrow> vec \<Rightarrow> vec \<Rightarrow> real \<Rightarrow> real \<Rightarrow> variational_parameters \<Rightarrow>
   nat list \<Rightarrow> vec list \<Rightarrow> ('e, 'b) DirichletBC list \<Rightarrow> ('f, 'e, 'b) solve_call list \<Rightarrow>
   (error + vec list) \<times> ('f, 'e, 'b) solve_call list" where
  "stages solve F A c u0 t dt sp [] k bcs1 tr = (Inr k, tr)"
| "stages solve F A c u0 t dt sp (i # is) k bcs1 tr =
     (let U = stage_state A dt u0 k i
      in if length c \<le> i then (Inl IndexError, tr)
         else
           let L = F (t + c ! i * dt) U;
               bcs1 = map (set_t (t + c ! i * dt)) bcs1;
               tr = tr @ [\<lparr>sc_form = UserForm L, sc_bcs = bcs1, sc_parameters = sp\<rparr>]
           in case solve (UserForm L) bcs1 sp of
                Inl e \<Rightarrow> (Inl e, tr)
              | Inr ki \<Rightarrow> stages solve F A c u0 t dt sp is (k @ [ki]) bcs1 tr)"

definition runge_kutta_step ::
  "('f form \<Rightarrow> ('e, 'b) DirichletBC list \<Rightarrow> variational_parameters \<Rightarrow> error + vec) \<Rightarrow>
   ('e \<Rightarrow> nat \<Rightarrow> 'e) \<Rightarrow> matrix \<Rightarrow> vec \<Rightarrow> vec \<Rightarrow> (real \<Rightarrow> vec \<Rightarrow> 'f) \<Rightarrow> vec \<Rightarrow> real \<Rightarrow> real \<Rightarrow>
   ('b \<times> 'e) list \<Rightarrow> real \<Rightarrow> bool \<Rightarrow> (error + vec) \<times> ('f, 'e, 'b) solve_call list" where
  "runge_kutta_step solve sympy_diff A b c F u0 t dt sympy_dirichlet_bcs tol verbose =
     (let s = length b
      in case explicit_check A s of
           Inl e \<Rightarrow> (Inl e, [])
         | Inr _ \<Rightarrow>
             let sp = \<lparr>sp_linear_solver = ''iterative'', sp_symmetric = True,
                       sp_preconditioner = ''hypre_amg'',
                       sp_krylov_solver =
                         \<lparr>relative_tolerance = tol, absolute_tolerance = 0,
                          maximum_iterations = 100, monitor_convergence = verbose\<rparr>\<rparr>;
                 BCS0 = make_bcs sympy_diff sympy_dirichlet_bcs t dt 0;
                 BCS1 = make_bcs sympy_diff sympy_dirichlet_bcs t dt 1
             in case stages solve F A c u0 t dt sp [0..<s] [] BCS1 [] of
                  (Inl e, tr) \<Rightarrow> (Inl e, tr)
                | (Inr k, tr) \<Rightarrow>
                    let U = fold (\<lambda>i U. vadd U (smul (b ! i) (k ! i))) [0..<s] u0;
                        bcs0 = map (set_t (t + dt)) BCS0;
                        rhs = MassForm (vadd u0 (smul dt U))
                    in (solve rhs bcs0 sp,
                        tr @ [\<lparr>sc_form = rhs, sc_bcs = bcs0, sc_parameters = sp\<rparr>]))"

definition heun_step where
  "heun_step solve sympy_diff F u0 t dt sympy_dirichlet_bcs tol verbose =
     (let alpha = 2 / 3;
          c = [0, alpha];
          A = [[0, 0],
               [alpha, 0]];
          b = [1 - 1 / (2 * alpha), 1 / (2 * alpha)]
      in runge_kutta_step solve sympy_diff A b c F u0 t dt sympy_dirichlet_bcs tol verbose)"

definition rk4_step where
  "rk4_step solve sympy_diff F u0 t dt sympy_dirichlet_bcs tol verbose =
     (let c = [0, 0.5, 0.5, 1];
          A = [[0, 0, 0, 0],
               [0.5, 0, 0, 0],
               [0, 0.5, 0, 0],
               [0, 0, 1, 0]];
          b = [1 / 6, 1 / 3, 1 / 3, 1 / 6]
      in runge_kutta_step solve sympy_diff A b c F u0 t dt sympy_dirichlet_bcs tol verbose)"

definition rkf_step where
  "rkf_step solve sympy_diff F u0 t dt sympy_dirichlet_bcs tol verbose =
     (let c = [0, 0.25, 3 / 8, 12 / 13, 1, 0.5];
          A = [[0, 0, 0, 0, 0, 0],
               [0.25, 0, 0, 0, 0, 0],
               [3 / 32, 9 / 32, 0, 0, 0, 0],
               [1932 / 2197, - 7200 / 2197, 7296 / 2197, 0, 0, 0],
               [439 / 216, - 8, 3680 / 513, - 845 / 4104, 0, 0],
               [- 8 / 27, 2, - 3544 / 2565, 1859 / 4104, - 11 / 40, 0]];
          b = [16 / 135, 0, 6656 / 12825, 28561 / 56430, - 9 / 50, 2 / 55]
      in runge_kutta_step solve sympy_diff A b c F u0 t dt sympy_dirichlet_bcs tol verbose)"

text \<open>
  Examples: the mass matrix is the identity and no constraint changes the system, so a solve
  returns the right-hand side; the expression named \<open>g\<close> is kept with the order of its
  derivative; \<open>F(u) = -u\<close>.
\<close>

definition example_solve ::
  "vec form \<Rightarrow> (string \<times> nat, nat) DirichletBC list \<Rightarrow> variational_parameters \<Rightarrow> error + vec" where
  "example_solve f bcs sp = (case f of UserForm L \<Rightarrow> Inr L | MassForm w \<Rightarrow> Inr w)"

definition example_diff :: "string \<times> nat \<Rightarrow> nat \<Rightarrow> string \<times> nat" where
  "example_diff expr k = (fst expr, snd expr + k)"

definition example_F :: "real \<Rightarrow> vec \<Rightarrow> vec" where
  "example_F t U = vneg U"

section \<open>What the verbose flag may reach\<close>

text \<open>
  A solver whose answer does not depend on \<^verbatim>\<open>monitor_convergence\<close>, the parameter that
  switches its progress report on and off.
\<close>

definition ignores_monitor :: "'bc backend \<Rightarrow> bool" where
  "ignores_monitor be =
     (\<forall>krylov pc params v A P rhs.
        krylov_solve be krylov pc (params\<lparr>monitor_convergence := v\<rparr>) A P rhs
          = krylov_solve be krylov pc params A P rhs)"

text \<open>The same of the \<^verbatim>\<open>solve\<close> the Runge-Kutta driver calls.\<close>

definition solve_ignores_monitor ::
  "('f form \<Rightarrow> ('e, 'b) DirichletBC list \<Rightarrow> variational_parameters \<Rightarrow> error + vec) \<Rightarrow> bool" where
  "solve_ignores_monitor solve =
     (\<forall>f bcs sp v.
        solve f bcs (sp\<lparr>sp_krylov_solver := (sp_krylov_solver sp)\<lparr>monitor_convergence := v\<rparr>\<rparr>)
          = solve f bcs sp)"

text \<open>What a call solves: its right-hand side and its constraints.\<close>

definition call_system ::
  "('f, 'e, 'b) solve_call \<Rightarrow> 'f form \<times> ('e, 'b) DirichletBC list" where
  "call_system call = (sc_form call, sc_bcs call)"

section \<open>Properties\<close>

text \<open>
  C8. For every state \<open>u0\<close> held by the caller, every time, step size, boundary-condition
  argument, tolerance and verbose flag, \<open>Dummy.step\<close> returns normally a reference to a
  newly allocated object: the first reference not handed out before, which is handed out
  now and differs from \<open>u0\<close>. Its contents equal those of \<open>u0\<close>; every other function,
  \<open>u0\<close> among them, and every matrix is left as it was, and no linear solve is started.
\<close>

theorem Dummy_step_copy:
  assumes "u0 < next_addr st"
  shows "case Dummy_step prob u0 t dt bcs1 tol verbose st of
           (Inl e, st') \<Rightarrow> False
         | (Inr u1, st') \<Rightarrow>
             u1 = next_addr st
             \<and> next_addr st' = Suc (next_addr st)
             \<and> u1 \<noteq> u0
             \<and> vecs st' u1 = vecs st u0
             \<and> (\<forall>a. a \<noteq> u1 \<longrightarrow> vecs st' a = vecs st a)
             \<and> mats st' = mats st
             \<and> n_solves st' = n_solves st"
  using assms by (simp add: Dummy_step_def alloc_vec_def)

theorem Dummy_step_copy_witness:
  "(0::nat) < next_addr dummy_store
   \<and> (case Dummy_step example_problem 0 0 1 [] (1 / 10 ^ 10) True dummy_store of
         (Inl e, st') \<Rightarrow> False
       | (Inr u1, st') \<Rightarrow>
           u1 = 2
           \<and> next_addr st' = 3
           \<and> vecs st' 2 = [1, 2]
           \<and> vecs st' 0 = [1, 2]
           \<and> vecs st' 1 = [7]
           \<and> n_solves st' = 4)"
proof -
  have h: "(0::nat) < next_addr dummy_store" by (simp add: dummy_store_def)
  have n: "next_addr dummy_store = 2" and s: "n_solves dummy_store = 4"
    and v0: "vecs dummy_store 0 = [1, 2]" and v1: "vecs dummy_store (Suc 0) = [7]"
    by (simp_all add: dummy_store_def)
  show ?thesis
    using h Dummy_step_copy [OF h, where prob = example_problem and t = 0 and dt = 1
        and ?bcs1.0 = "[]" and tol = "1 / 10 ^ 10" and verbose = True]
    unfolding n s v0
    by (auto simp: v0 v1 split: prod.splits sum.splits)
qed

subsection \<open>Frames of the building blocks\<close>

lemma apply_bcs_frame:
  "apply_bcs be bcs A rhs st = (rhs', st') \<Longrightarrow>
     vecs st' = vecs st \<and> next_addr st' = next_addr st \<and> n_solves st' = n_solves st
     \<and> (\<forall>a. a \<noteq> A \<longrightarrow> mats st' a = mats st a)"
proof (induction bcs arbitrary: rhs st)
  case Nil
  then show ?case by simp
next
  case (Cons bc bcs)
  obtain A1 rhs1 where ap: "bc_apply be bc (mats st A) rhs = (A1, rhs1)"
    by (cases "bc_apply be bc (mats st A) rhs")
  from Cons.prems ap
  have "apply_bcs be bcs A rhs1 (st\<lparr>mats := (mats st)(A := A1)\<rparr>) = (rhs', st')"
    by simp
  from Cons.IH [OF this] show ?case by simp
qed

lemma apply_bcs_constrained:
  "apply_bcs be bcs A rhs st = (rhs', st') \<Longrightarrow>
     (mats st' A, rhs') = constrained be bcs (mats st A, rhs)"
proof (induction bcs arbitrary: rhs st)
  case Nil
  then show ?case by (simp add: constrained_def)
next
  case (Cons bc bcs)
  obtain A1 rhs1 where ap: "bc_apply be bc (mats st A) rhs = (A1, rhs1)"
    by (cases "bc_apply be bc (mats st A) rhs")
  from Cons.prems ap
  have "apply_bcs be bcs A rhs1 (st\<lparr>mats := (mats st)(A := A1)\<rparr>) = (rhs', st')"
    by simp
  from Cons.IH [OF this] ap show ?case by (simp add: constrained_def)
qed

lemma alloc_mat_frame:
  "alloc_mat P st = (A, st1) \<Longrightarrow>
     A = next_addr st \<and> vecs st1 = vecs st \<and> n_solves st1 = n_solves st
     \<and> mats st1 A = P \<and> (\<forall>a. a \<noteq> A \<longrightarrow> mats st1 a = mats st a)"
  by (auto simp: alloc_mat_def)

lemma solver_solve_mats:
  "mats (snd (solver_solve be krylov pc params A P u1 rhs st)) = mats st"
  by (simp add: solver_solve_def Let_def split: sum.splits)

lemma explicit_rhs:
  "axpy dt (vadd (vneg Lu0) b) Mu0 = vadd Mu0 (smul dt (vsub b Lu0))"
  by (rule nth_equalityI) (auto simp: axpy_def vadd_def vneg_def smul_def vsub_def)


lemma trapezoidal_rhs:
  "axpy (dt * 0.5) (vadd b0 b1) (axpy (- dt * 0.5) Lu0 Mu0)
     = vsub (vadd Mu0 (smul (0.5 * dt) (vadd b0 b1))) (smul (0.5 * dt) Lu0)"
  by (rule nth_equalityI) (auto simp: axpy_def vadd_def vneg_def smul_def vsub_def algebra_simps)

subsection \<open>The systems the single-step schemes solve\<close>

text \<open>
  As long as the object \<open>M\<close> of the stepper holds the mass operator, as it does after the
  constructor, \<open>ExplicitEuler.step\<close> hands to the solver the pair
  \<open>(M, M u0 + dt (b - L u0))\<close> with the constraints of \<open>t + dt\<close> applied to it in order:
  the step fails exactly when that solve fails, and otherwise \<open>u1\<close> holds its solution.
\<close>

theorem ExplicitEuler_step_system:
  assumes "get_system (problem self) t = Inr (L, b)"
      and "get_bcs (problem self) (t + dt) = Inr bcs"
      and "mats st (M self) = mass_form (problem self)"
  shows "case ExplicitEuler_step be self u1 u0 t dt tol maxiter verbose st of
           (r, st') \<Rightarrow>
             (case constrained be bcs
                     (mass_form (problem self),
                      vadd (mult (mass_form (problem self)) (vecs st u0))
                        (smul dt (vsub b (mult L (vecs st u0))))) of
                (A, rhs) \<Rightarrow>
                  (case krylov_solve be ''cg'' ''amg''
                          \<lparr>relative_tolerance = tol, absolute_tolerance = 0,
                           maximum_iterations = maxiter, monitor_convergence = verbose\<rparr>
                          A None rhs of
                     Inl e \<Rightarrow> r = Inl e
                   | Inr x \<Rightarrow> r = Inr () \<and> vecs st' u1 = x))"
proof -
  let ?rhs = "axpy dt (vadd (vneg (mult L (vecs st u0))) b) (mult (mass_form (problem self)) (vecs st u0))"
  obtain rhs1 st1 where ab: "apply_bcs be bcs (M self) ?rhs st = (rhs1, st1)"
    by (cases "apply_bcs be bcs (M self) ?rhs st")
  from apply_bcs_constrained [OF ab] assms(3)
  have c: "constrained be bcs (mass_form (problem self), ?rhs) = (mats st1 (M self), rhs1)"
    by simp
  show ?thesis
    using assms(1,2) ab c
    by (auto simp: ExplicitEuler_step_def solver_solve_def Let_def explicit_rhs [symmetric] split: sum.splits)
qed

theorem ExplicitEuler_step_system_witness:
  "get_system (problem example_stepper) 0 = Inr ([[1, 0], [0, 1]], [0, 0])
   \<and> get_bcs (problem example_stepper) (0 + 1) = Inr [(0, 5)]
   \<and> mats example_store (M example_stepper) = mass_form (problem example_stepper)
   \<and> (case ExplicitEuler_step example_backend example_stepper 1 0 0 1 (1 / 10 ^ 10) 100 True
             example_store of
        (r, st') \<Rightarrow> r = Inr () \<and> vecs st' 1 = [5, 1 / 2])"
proof -
  have h1: "get_system (problem example_stepper) 0 = Inr ([[1, 0], [0, 1]], [0, 0])"
    by (simp add: example_stepper_def example_problem_def)
  have h2: "get_bcs (problem example_stepper) (0 + 1) = Inr [(0, 5)]"
    by (simp add: example_stepper_def example_problem_def)
  have h3: "mats example_store (M example_stepper) = mass_form (problem example_stepper)"
    by (simp add: example_stepper_def example_problem_def example_store_def)
  have v: "vecs example_store 0 = [1, 1]" by (simp add: example_store_def)
  have m: "mass_form (problem example_stepper) = [[2, 0], [0, 2]]"
    by (simp add: example_stepper_def example_problem_def)
  show ?thesis
    using h1 h2 h3
      ExplicitEuler_step_system [OF h1 h2 h3, where be = example_backend and ?u1.0 = 1
        and ?u0.0 = 0 and tol = "1 / 10 ^ 10" and maxiter = 100 and verbose = True]
    unfolding v m
    by (simp add: m example_backend_def dof_apply_def unit_row_def is_diagonal_def
          diagonal_solve_def constrained_def mult_def vadd_def smul_def vsub_def
          eval_nat_numeral split: prod.splits)
qed

text \<open>
  C4. The step itself ends that state: it constrains the object \<open>M\<close>. Two steps of the
  stepper for the problem whose constraint is lifted after time 1: the first, from \<open>t = 0\<close>,
  returns \<open>[5, 1/2]\<close> and leaves \<open>[[1, 0], [0, 2]]\<close> in \<open>M\<close>; the second, from \<open>t = 1\<close> with no
  constraint at \<open>t + dt = 2\<close>, solves with that operator and returns \<open>[6, 3/4]\<close>, where the
  system \<open>M u1 = M u0 + dt (b - L u0)\<close> of the mass operator \<open>[[2, 0], [0, 2]]\<close> has the
  solution \<open>[3, 3/4]\<close>.
\<close>

theorem ExplicitEuler_step_after_constrained_step:
  "case ExplicitEuler_step example_backend released_stepper 1 0 0 1 (1 / 10 ^ 10) 100 True
          example_store of
     (r1, st1) \<Rightarrow>
       (case ExplicitEuler_step example_backend released_stepper 0 1 1 1 (1 / 10 ^ 10) 100 True
               st1 of
          (r2, st2) \<Rightarrow>
            r1 = Inr () \<and> vecs st1 1 = [5, 1 / 2]
            \<and> mats st1 (M released_stepper) = [[1, 0], [0, 2]]
            \<and> get_system (problem released_stepper) 1 = Inr ([[1, 0], [0, 1]], [1, 1])
            \<and> get_bcs (problem released_stepper) (1 + 1) = Inr []
            \<and> r2 = Inr () \<and> vecs st2 0 = [6, 3 / 4]
            \<and> (case constrained example_backend []
                       (mass_form (problem released_stepper),
                        vadd (mult (mass_form (problem released_stepper)) [5, 1 / 2])
                          (smul 1 (vsub [1, 1] (mult [[1, 0], [0, 1]] [5, 1 / 2])))) of
                  (A, rhs) \<Rightarrow>
                    krylov_solve example_backend ''cg'' ''amg''
                      \<lparr>relative_tolerance = 1 / 10 ^ 10, absolute_tolerance = 0,
                       maximum_iterations = 100, monitor_convergence = True\<rparr>
                      A None rhs = Inr [3, 3 / 4]))"
  by (simp add: ExplicitEuler_step_def solver_solve_def Let_def released_problem_def
        released_stepper_def example_store_def example_backend_def dof_apply_def unit_row_def
        is_diagonal_def diagonal_solve_def constrained_def mult_def vadd_def smul_def vneg_def
        vsub_def axpy_def eval_nat_numeral)

text \<open>
  C5. When the provider returns \<open>(L, b)\<close> and the constraints \<open>bcs\<close> at \<open>t + dt\<close>, and the
  stepper's \<open>M\<close> is an allocated object holding the mass operator, \<open>ImplicitEuler.step\<close>
  hands to the solver the pair \<open>(M + dt L, M u0 + dt b)\<close> with the constraints applied to it
  in order, and \<open>M + dt P\<close> as preconditioning operator when the provider gives a \<open>P\<close>: the
  step fails exactly when that solve fails, and otherwise \<open>u1\<close> holds its solution.
\<close>

theorem ImplicitEuler_step_system:
  assumes "get_system (problem self) (t + dt) = Inr (L, b)"
      and "get_bcs (problem self) (t + dt) = Inr bcs"
      and "mats st (M self) = mass_form (problem self)"
      and "M self < next_addr st"
  shows "case ImplicitEuler_step be self u1 u0 t dt tol maxiter verbose krylov preconditioner st of
           (r, st') \<Rightarrow>
             (case constrained be bcs
                     (madd (mass_form (problem self)) (msmul dt L),
                      vadd (mult (mass_form (problem self)) (vecs st u0)) (smul dt b)) of
                (A, rhs) \<Rightarrow>
                  (case krylov_solve be krylov preconditioner
                          \<lparr>relative_tolerance = tol, absolute_tolerance = 0,
                           maximum_iterations = maxiter, monitor_convergence = verbose\<rparr>
                          A
                          (map_option (\<lambda>P. madd (mass_form (problem self)) (msmul dt P))
                             (get_preconditioner (problem self) (t + dt)))
                          rhs of
                     Inl e \<Rightarrow> r = Inl e
                   | Inr x \<Rightarrow> r = Inr () \<and> vecs st' u1 = x))"
proof -
  let ?A0 = "madd (mass_form (problem self)) (msmul dt L)"
  let ?rhs = "axpy dt b (mult (mass_form (problem self)) (vecs st u0))"
  obtain A st1 where al: "alloc_mat ?A0 st = (A, st1)"
    by (cases "alloc_mat ?A0 st")
  note f1 = alloc_mat_frame [OF al]
  obtain rhs2 st2 where ab: "apply_bcs be bcs A ?rhs st1 = (rhs2, st2)"
    by (cases "apply_bcs be bcs A ?rhs st1")
  note f2 = apply_bcs_frame [OF ab]
  from f1 assms(4) have ne: "M self \<noteq> A" by simp
  with f1 f2 assms(3) have m: "mats st2 (M self) = mass_form (problem self)" by simp
  from f1 have mA: "mats st1 A = ?A0" by blast
  from apply_bcs_constrained [OF ab]
  have c: "constrained be bcs (?A0, ?rhs) = (mats st2 A, rhs2)"
    unfolding mA by simp
  have r: "?rhs = vadd (mult (mass_form (problem self)) (vecs st u0)) (smul dt b)"
    by (simp add: axpy_def)
  show ?thesis
    using assms(1,2,3) al ab c m f1
    by (auto simp: ImplicitEuler_step_def solver_solve_def Let_def r [symmetric]
             split: sum.splits option.splits)
qed

theorem ImplicitEuler_step_system_witness:
  "get_system (problem example_stepper) (0 + 1) = Inr ([[1, 0], [0, 1]], [1, 1])
   \<and> get_bcs (problem example_stepper) (0 + 1) = Inr [(0, 5)]
   \<and> mats example_store (M example_stepper) = mass_form (problem example_stepper)
   \<and> M example_stepper < next_addr example_store
   \<and> (case ImplicitEuler_step example_backend example_stepper 1 0 0 1 (1 / 10 ^ 10) 1000 True
             ''gmres'' ''ilu'' example_store of
        (r, st') \<Rightarrow> r = Inr () \<and> vecs st' 1 = [5, 1])"
proof -
  have h1: "get_system (problem example_stepper) (0 + 1) = Inr ([[1, 0], [0, 1]], [1, 1])"
    by (simp add: example_stepper_def example_problem_def)
  have h2: "get_bcs (problem example_stepper) (0 + 1) = Inr [(0, 5)]"
    by (simp add: example_stepper_def example_problem_def)
  have h3: "mats example_store (M example_stepper) = mass_form (problem example_stepper)"
    by (simp add: example_stepper_def example_problem_def example_store_def)
  have h4: "M example_stepper < next_addr example_store"
    by (simp add: example_stepper_def example_store_def)
  have v: "vecs example_store 0 = [1, 1]" by (simp add: example_store_def)
  have m: "mass_form (problem example_stepper) = [[2, 0], [0, 2]]"
    by (simp add: example_stepper_def example_problem_def)
  have p: "get_preconditioner (problem example_stepper) (0 + 1) = None"
    by (simp add: example_stepper_def example_problem_def)
  show ?thesis
    using h1 h2 h3 h4
      ImplicitEuler_step_system [OF h1 h2 h3 h4, where be = example_backend and ?u1.0 = 1
        and ?u0.0 = 0 and tol = "1 / 10 ^ 10" and maxiter = 1000 and verbose = True
        and krylov = "''gmres''" and preconditioner = "''ilu''"]
    unfolding v m p
    by (simp add: m example_backend_def dof_apply_def unit_row_def is_diagonal_def
          diagonal_solve_def constrained_def mult_def vadd_def smul_def vsub_def madd_def
          msmul_def eval_nat_numeral split: prod.splits)
qed

text \<open>
  C6. When the provider returns \<open>(L0, b0)\<close> at \<open>t\<close>, \<open>(L1, b1)\<close> and the constraints \<open>bcs\<close> at
  \<open>t + dt\<close>, and the stepper's \<open>M\<close> holds the mass operator, \<open>Trapezoidal.step\<close> hands to the
  solver the pair \<open>(M + 0.5 dt L1, M u0 + 0.5 dt (b0 + b1) - 0.5 dt L0 u0)\<close> with the
  constraints applied to it in order: the step fails exactly when that solve fails, and
  otherwise \<open>u1\<close> holds its solution.
\<close>

theorem Trapezoidal_step_system:
  assumes "get_system (problem self) t = Inr (L0, b0)"
      and "get_system (problem self) (t + dt) = Inr (L1, b1)"
      and "get_bcs (problem self) (t + dt) = Inr bcs"
      and "mats st (M self) = mass_form (problem self)"
  shows "case Trapezoidal_step be self u1 u0 t dt tol verbose maxiter krylov preconditioner st of
           (r, st') \<Rightarrow>
             (case constrained be bcs
                     (madd (mass_form (problem self)) (msmul (0.5 * dt) L1),
                      vsub (vadd (mult (mass_form (problem self)) (vecs st u0))
                                 (smul (0.5 * dt) (vadd b0 b1)))
                           (smul (0.5 * dt) (mult L0 (vecs st u0)))) of
                (A, rhs) \<Rightarrow>
                  (case krylov_solve be krylov preconditioner
                          \<lparr>relative_tolerance = tol, absolute_tolerance = 0,
                           maximum_iterations = maxiter, monitor_convergence = verbose\<rparr>
                          A None rhs of
                     Inl e \<Rightarrow> r = Inl e
                   | Inr x \<Rightarrow> r = Inr () \<and> vecs st' u1 = x))"
proof -
  let ?A0 = "madd (mass_form (problem self)) (msmul (0.5 * dt) L1)"
  let ?rhs = "axpy (dt * 0.5) (vadd b0 b1)
                (axpy (- dt * 0.5) (mult L0 (vecs st u0)) (mult (mass_form (problem self)) (vecs st u0)))"
  obtain A st1 where al: "alloc_mat ?A0 st = (A, st1)"
    by (cases "alloc_mat ?A0 st")
  note f1 = alloc_mat_frame [OF al]
  obtain rhs2 st2 where ab: "apply_bcs be bcs A ?rhs st1 = (rhs2, st2)"
    by (cases "apply_bcs be bcs A ?rhs st1")
  from f1 have mA: "mats st1 A = ?A0" by blast
  from apply_bcs_constrained [OF ab]
  have c: "constrained be bcs (?A0, ?rhs) = (mats st2 A, rhs2)"
    unfolding mA by simp
  have r: "?rhs = vsub (vadd (mult (mass_form (problem self)) (vecs st u0))
                                 (smul (0.5 * dt) (vadd b0 b1)))
                           (smul (0.5 * dt) (mult L0 (vecs st u0)))"
    by (rule trapezoidal_rhs)
  from c have c': "constrained be bcs
      (?A0, vsub (vadd (mult (mass_form (problem self)) (vecs st u0))
                                 (smul (0.5 * dt) (vadd b0 b1)))
                           (smul (0.5 * dt) (mult L0 (vecs st u0)))) = (mats st2 A, rhs2)"
    by (simp only: r)
  show ?thesis
    using assms al ab c'
    by (auto simp: Trapezoidal_step_def solver_solve_def Let_def split: sum.splits)
qed

theorem Trapezoidal_step_system_witness:
  "get_system (problem example_stepper) 0 = Inr ([[1, 0], [0, 1]], [0, 0])
   \<and> get_system (problem example_stepper) (0 + 1) = Inr ([[1, 0], [0, 1]], [1, 1])
   \<and> get_bcs (problem example_stepper) (0 + 1) = Inr [(0, 5)]
   \<and> mats example_store (M example_stepper) = mass_form (problem example_stepper)
   \<and> (case Trapezoidal_step example_backend example_stepper 1 0 0 1 (1 / 10 ^ 10) True 1000
             ''gmres'' ''ilu'' example_store of
        (r, st') \<Rightarrow> r = Inr () \<and> vecs st' 1 = [5, 4 / 5])"
proof -
  have h0: "get_system (problem example_stepper) 0 = Inr ([[1, 0], [0, 1]], [0, 0])"
    by (simp add: example_stepper_def example_problem_def)
  have h1: "get_system (problem example_stepper) (0 + 1) = Inr ([[1, 0], [0, 1]], [1, 1])"
    by (simp add: example_stepper_def example_problem_def)
  have h2: "get_bcs (problem example_stepper) (0 + 1) = Inr [(0, 5)]"
    by (simp add: example_stepper_def example_problem_def)
  have h3: "mats example_store (M example_stepper) = mass_form (problem example_stepper)"
    by (simp add: example_stepper_def example_problem_def example_store_def)
  have v: "vecs example_store 0 = [1, 1]" by (simp add: example_store_def)
  have m: "mass_form (problem example_stepper) = [[2, 0], [0, 2]]"
    by (simp add: example_stepper_def example_problem_def)
  show ?thesis
    using h0 h1 h2 h3
      Trapezoidal_step_system [OF h0 h1 h2 h3, where be = example_backend and ?u1.0 = 1
        and ?u0.0 = 0 and tol = "1 / 10 ^ 10" and maxiter = 1000 and verbose = True
        and krylov = "''gmres''" and preconditioner = "''ilu''"]
    unfolding v m
    by (simp add: m example_backend_def dof_apply_def unit_row_def is_diagonal_def
          diagonal_solve_def constrained_def mult_def vadd_def smul_def vsub_def madd_def
          msmul_def eval_nat_numeral split: prod.splits)
qed

subsection \<open>The mass matrix across a step\<close>

text \<open>
  C10. \<open>ImplicitEuler.step\<close> and \<open>Trapezoidal.step\<close> leave the object \<open>M\<close> of the stepper as
  it was, whatever the provider, the constraints and the solver do, and also when the step
  fails: the operator they constrain is a newly allocated sum.
\<close>

theorem implicit_steps_keep_M:
  assumes "M self < next_addr st"
  shows "mats (snd (ImplicitEuler_step be self u1 u0 t dt tol maxiter verbose krylov preconditioner st))
           (M self) = mats st (M self)
       \<and> mats (snd (Trapezoidal_step be self u1 u0 t dt tol verbose maxiter krylov preconditioner st))
           (M self) = mats st (M self)"
proof
  show "mats (snd (ImplicitEuler_step be self u1 u0 t dt tol maxiter verbose krylov preconditioner st))
           (M self) = mats st (M self)"
  proof (cases "get_system (problem self) (t + dt)")
    case (Inl e)
    then show ?thesis by (simp add: ImplicitEuler_step_def)
  next
    case (Inr Lb)
    obtain L b where Lb: "Lb = (L, b)" by (cases Lb)
    obtain A st1 where al: "alloc_mat (madd (mats st (M self)) (msmul dt L)) st = (A, st1)"
      by (cases "alloc_mat (madd (mats st (M self)) (msmul dt L)) st")
    note f1 = alloc_mat_frame [OF al]
    from f1 assms have ne: "M self \<noteq> A" by simp
    show ?thesis
    proof (cases "get_bcs (problem self) (t + dt)")
      case (Inl e)
      with Inr Lb al f1 ne show ?thesis by (simp add: ImplicitEuler_step_def)
    next
      case bcs: (Inr bcs)
      let ?rhs = "axpy dt b (mult (mass_form (problem self)) (vecs st1 u0))"
      obtain rhs2 st2 where ab: "apply_bcs be bcs A ?rhs st1 = (rhs2, st2)"
        by (cases "apply_bcs be bcs A ?rhs st1")
      note f2 = apply_bcs_frame [OF ab]
      from f1 f2 ne have "mats st2 (M self) = mats st (M self)" by simp
      with Inr Lb al bcs ab show ?thesis
        by (simp add: ImplicitEuler_step_def Let_def solver_solve_mats)
    qed
  qed
next
  show "mats (snd (Trapezoidal_step be self u1 u0 t dt tol verbose maxiter krylov preconditioner st))
           (M self) = mats st (M self)"
  proof (cases "get_system (problem self) t")
    case (Inl e)
    then show ?thesis by (simp add: Trapezoidal_step_def)
  next
    case (Inr Lb0)
    obtain L0 b0 where Lb0: "Lb0 = (L0, b0)" by (cases Lb0)
    show ?thesis
    proof (cases "get_system (problem self) (t + dt)")
      case (Inl e)
      with Inr Lb0 show ?thesis by (simp add: Trapezoidal_step_def)
    next
      case s1: (Inr Lb1)
      obtain L1 b1 where Lb1: "Lb1 = (L1, b1)" by (cases Lb1)
      obtain A st1 where al: "alloc_mat (madd (mats st (M self)) (msmul (0.5 * dt) L1)) st = (A, st1)"
        by (cases "alloc_mat (madd (mats st (M self)) (msmul (0.5 * dt) L1)) st")
      note f1 = alloc_mat_frame [OF al]
      from f1 assms have ne: "M self \<noteq> A" by simp
      show ?thesis
      proof (cases "get_bcs (problem self) (t + dt)")
        case (Inl e)
        with Inr Lb0 s1 Lb1 al f1 ne show ?thesis by (simp add: Trapezoidal_step_def Let_def)
      next
        case bcs: (Inr bcs)
        let ?rhs = "axpy (dt * 0.5) (vadd b0 b1)
                (axpy (- dt * 0.5) (mult L0 (vecs st u0)) (mult (mass_form (problem self)) (vecs st u0)))"
        obtain rhs2 st2 where ab: "apply_bcs be bcs A ?rhs st1 = (rhs2, st2)"
          by (cases "apply_bcs be bcs A ?rhs st1")
        note f2 = apply_bcs_frame [OF ab]
        from f1 f2 ne have "mats st2 (M self) = mats st (M self)" by simp
        with Inr Lb0 s1 Lb1 al bcs ab show ?thesis
          by (simp add: Trapezoidal_step_def Let_def solver_solve_mats)
      qed
    qed
  qed
qed

theorem implicit_steps_keep_M_witness:
  "M example_stepper < next_addr example_store
   \<and> mats (snd (ImplicitEuler_step example_backend example_stepper 1 0 0 1 (1 / 10 ^ 10) 1000
                  True ''gmres'' ''ilu'' example_store)) (M example_stepper) = [[2, 0], [0, 2]]
   \<and> mats (snd (Trapezoidal_step example_backend example_stepper 1 0 0 1 (1 / 10 ^ 10) True
                  1000 ''gmres'' ''ilu'' example_store)) (M example_stepper) = [[2, 0], [0, 2]]"
proof -
  have h: "M example_stepper < next_addr example_store"
    by (simp add: example_stepper_def example_store_def)
  have m: "mats example_store (M example_stepper) = [[2, 0], [0, 2]]"
    by (simp add: example_stepper_def example_store_def)
  show ?thesis
    using h m implicit_steps_keep_M [OF h, where be = example_backend and ?u1.0 = 1
        and ?u0.0 = 0 and t = 0 and dt = 1 and tol = "1 / 10 ^ 10" and maxiter = 1000
        and verbose = True and krylov = "''gmres''" and preconditioner = "''ilu''"]
    by simp
qed

text \<open>
  C3. \<open>ExplicitEuler.step\<close> constrains the object \<open>M\<close> itself (\<^verbatim>\<open>A = self.M\<close>): on the
  example, the step returns normally and the mass matrix \<open>[[2, 0], [0, 2]]\<close> of the stepper
  has become \<open>[[1, 0], [0, 2]]\<close>.
\<close>

theorem ExplicitEuler_step_mutates_M:
  "case ExplicitEuler_step example_backend example_stepper 1 0 0 1 (1 / 10 ^ 10) 100 True
          example_store of
     (r, st') \<Rightarrow>
       r = Inr ()
       \<and> mats example_store (M example_stepper) = [[2, 0], [0, 2]]
       \<and> mats st' (M example_stepper) = [[1, 0], [0, 2]]"
  by (simp add: ExplicitEuler_step_def solver_solve_def Let_def example_problem_def
        example_stepper_def example_store_def example_backend_def dof_apply_def unit_row_def
        is_diagonal_def diagonal_solve_def mult_def vadd_def smul_def vneg_def axpy_def
        eval_nat_numeral)

subsection \<open>The verbose flag\<close>

lemma solver_solve_monitor:
  assumes "ignores_monitor be"
  shows "solver_solve be krylov pc
           \<lparr>relative_tolerance = tol, absolute_tolerance = 0, maximum_iterations = maxiter,
            monitor_convergence = verbose\<rparr> A P u1 rhs st
         = solver_solve be krylov pc
           \<lparr>relative_tolerance = tol, absolute_tolerance = 0, maximum_iterations = maxiter,
            monitor_convergence = False\<rparr> A P u1 rhs st"
proof -
  from assms have "krylov_solve be krylov pc
        (\<lparr>relative_tolerance = tol, absolute_tolerance = 0, maximum_iterations = maxiter,
          monitor_convergence = False\<rparr>\<lparr>monitor_convergence := verbose\<rparr>) A P rhs
      = krylov_solve be krylov pc
        \<lparr>relative_tolerance = tol, absolute_tolerance = 0, maximum_iterations = maxiter,
          monitor_convergence = False\<rparr> A P rhs"
    unfolding ignores_monitor_def by blast
  then show ?thesis by (simp add: solver_solve_def)
qed

lemma solve_monitor:
  assumes "solve_ignores_monitor solve"
  shows "solve f bcs
           \<lparr>sp_linear_solver = ls, sp_symmetric = sy, sp_preconditioner = pc,
            sp_krylov_solver =
              \<lparr>relative_tolerance = tol, absolute_tolerance = 0, maximum_iterations = mi,
               monitor_convergence = verbose\<rparr>\<rparr>
         = solve f bcs
           \<lparr>sp_linear_solver = ls, sp_symmetric = sy, sp_preconditioner = pc,
            sp_krylov_solver =
              \<lparr>relative_tolerance = tol, absolute_tolerance = 0, maximum_iterations = mi,
               monitor_convergence = False\<rparr>\<rparr>"
proof -
  from assms have "solve f bcs
      (\<lparr>sp_linear_solver = ls, sp_symmetric = sy, sp_preconditioner = pc,
        sp_krylov_solver =
          \<lparr>relative_tolerance = tol, absolute_tolerance = 0, maximum_iterations = mi,
           monitor_convergence = False\<rparr>\<rparr>
       \<lparr>sp_krylov_solver :=
          (sp_krylov_solver
             \<lparr>sp_linear_solver = ls, sp_symmetric = sy, sp_preconditioner = pc,
              sp_krylov_solver =
                \<lparr>relative_tolerance = tol, absolute_tolerance = 0, maximum_iterations = mi,
                 monitor_convergence = False\<rparr>\<rparr>)
          \<lparr>monitor_convergence := verbose\<rparr>\<rparr>)
    = solve f bcs
      \<lparr>sp_linear_solver = ls, sp_symmetric = sy, sp_preconditioner = pc,
        sp_krylov_solver =
          \<lparr>relative_tolerance = tol, absolute_tolerance = 0, maximum_iterations = mi,
           monitor_convergence = False\<rparr>\<rparr>"
    unfolding solve_ignores_monitor_def by blast
  then show ?thesis by simp
qed

text \<open>
  The stage loop under two parameter sets the solver does not tell apart: the same result,
  and the same right-hand sides and constraints solved in the same order.
\<close>

lemma stages_monitor:
  assumes "\<And>f bcs. solve f bcs sp = solve f bcs sp'"
      and "map call_system tr = map call_system tr'"
  shows "fst (stages solve F A c u0 t dt sp js k bcs1 tr)
           = fst (stages solve F A c u0 t dt sp' js k bcs1 tr')
       \<and> map call_system (snd (stages solve F A c u0 t dt sp js k bcs1 tr))
           = map call_system (snd (stages solve F A c u0 t dt sp' js k bcs1 tr'))"
  using assms(2)
proof (induction js arbitrary: k bcs1 tr tr')
  case Nil
  then show ?case by simp
next
  case (Cons i js)
  show ?case
  proof (cases "length c \<le> i")
    case True
    with Cons.prems show ?thesis by simp
  next
    case False
    let ?U = "stage_state A dt u0 k i"
    let ?L = "F (t + c ! i * dt) ?U"
    let ?bcs = "map (set_t (t + c ! i * dt)) bcs1"
    let ?tr = "tr @ [\<lparr>sc_form = UserForm ?L, sc_bcs = ?bcs, sc_parameters = sp\<rparr>]"
    let ?tr' = "tr' @ [\<lparr>sc_form = UserForm ?L, sc_bcs = ?bcs, sc_parameters = sp'\<rparr>]"
    have "call_system \<lparr>sc_form = UserForm ?L, sc_bcs = ?bcs, sc_parameters = sp\<rparr>
            = call_system \<lparr>sc_form = UserForm ?L, sc_bcs = ?bcs, sc_parameters = sp'\<rparr>"
      by (simp add: call_system_def)
    with Cons.prems have m: "map call_system ?tr = map call_system ?tr'"
      by simp
    have e: "solve (UserForm ?L) ?bcs sp = solve (UserForm ?L) ?bcs sp'" by (rule assms(1))
    show ?thesis
    proof (cases "solve (UserForm ?L) ?bcs sp'")
      case (Inl err)
      with e False m show ?thesis by (simp add: Let_def)
    next
      case (Inr ki)
      from Cons.IH [OF m, of "k @ [ki]" ?bcs] e False Inr show ?thesis by (simp add: Let_def)
    qed
  qed
qed

lemma runge_kutta_step_monitor:
  assumes "solve_ignores_monitor solve"
  shows "fst (runge_kutta_step solve sympy_diff A b c F u0 t dt sympy_dirichlet_bcs tol verbose)
           = fst (runge_kutta_step solve sympy_diff A b c F u0 t dt sympy_dirichlet_bcs tol verbose')
       \<and> map call_system
           (snd (runge_kutta_step solve sympy_diff A b c F u0 t dt sympy_dirichlet_bcs tol verbose))
           = map call_system
               (snd (runge_kutta_step solve sympy_diff A b c F u0 t dt sympy_dirichlet_bcs tol
                  verbose'))"
proof (cases "explicit_check A (length b)")
  case (Inl e)
  then show ?thesis by (simp add: runge_kutta_step_def)
next
  case (Inr u)
  let ?sp = "\<lambda>v. \<lparr>sp_linear_solver = ''iterative'', sp_symmetric = True,
                   sp_preconditioner = ''hypre_amg'',
                   sp_krylov_solver =
                     \<lparr>relative_tolerance = tol, absolute_tolerance = 0,
                      maximum_iterations = 100, monitor_convergence = v\<rparr>\<rparr>"
  let ?B1 = "make_bcs sympy_diff sympy_dirichlet_bcs t dt 1"
  have e: "\<And>f bcs. solve f bcs (?sp verbose) = solve f bcs (?sp verbose')"
    using solve_monitor [OF assms, where verbose = verbose]
      solve_monitor [OF assms, where verbose = verbose'] by simp
  have "map call_system ([] :: ('a, 'b, 'c) solve_call list) = map call_system []" by simp
  from stages_monitor [of solve "?sp verbose" "?sp verbose'", OF e this,
      of F A c u0 t dt "[0..<length b]" "[]" ?B1]
  have st: "fst (stages solve F A c u0 t dt (?sp verbose) [0..<length b] [] ?B1 [])
              = fst (stages solve F A c u0 t dt (?sp verbose') [0..<length b] [] ?B1 [])"
    and tr: "map call_system (snd (stages solve F A c u0 t dt (?sp verbose) [0..<length b] [] ?B1 []))
              = map call_system
                  (snd (stages solve F A c u0 t dt (?sp verbose') [0..<length b] [] ?B1 []))"
    by simp_all
  obtain r1 tr1 where s1: "stages solve F A c u0 t dt (?sp verbose) [0..<length b] [] ?B1 [] = (r1, tr1)"
    by (cases "stages solve F A c u0 t dt (?sp verbose) [0..<length b] [] ?B1 []")
  obtain r2 tr2 where s2: "stages solve F A c u0 t dt (?sp verbose') [0..<length b] [] ?B1 [] = (r2, tr2)"
    by (cases "stages solve F A c u0 t dt (?sp verbose') [0..<length b] [] ?B1 []")
  from st tr s1 s2 have r: "r1 = r2" and m: "map call_system tr1 = map call_system tr2"
    by simp_all
  show ?thesis
    using Inr s1 s2 r m e
    by (cases r2) (simp_all add: runge_kutta_step_def Let_def call_system_def)
qed

text \<open>
  C9. With a solver whose answer does not depend on its convergence monitor, two runs of
  \<open>step\<close> of any of the four stepper classes that differ only in the verbose flag return
  the same result and leave the same store. With a \<^verbatim>\<open>solve\<close> of which the same holds,
  two runs of the Runge-Kutta driver, or of Heun's, the classical or Fehlberg's method, that
  differ only in the verbose flag return the same result and solve the same right-hand
  sides under the same constraints in the same order. The flag reaches the
  \<^verbatim>\<open>monitor_convergence\<close> parameter of the solves and nothing else.
\<close>

theorem verbose_only_monitors:
  assumes "ignores_monitor be"
  shows "Dummy_step prob u0 t dt bcs1 tol verbose st = Dummy_step prob u0 t dt bcs1 tol verbose' st
       \<and> ExplicitEuler_step be self u1 u0 t dt tol maxiter verbose st
           = ExplicitEuler_step be self u1 u0 t dt tol maxiter verbose' st
       \<and> ImplicitEuler_step be self u1 u0 t dt tol maxiter verbose krylov preconditioner st
           = ImplicitEuler_step be self u1 u0 t dt tol maxiter verbose' krylov preconditioner st
       \<and> Trapezoidal_step be self u1 u0 t dt tol verbose maxiter krylov preconditioner st
           = Trapezoidal_step be self u1 u0 t dt tol verbose' maxiter krylov preconditioner st
       \<and> (solve_ignores_monitor solve \<longrightarrow>
            fst (runge_kutta_step solve sympy_diff A b c F w0 t dt sbcs tol verbose)
              = fst (runge_kutta_step solve sympy_diff A b c F w0 t dt sbcs tol verbose')
            \<and> map call_system (snd (runge_kutta_step solve sympy_diff A b c F w0 t dt sbcs tol verbose))
              = map call_system (snd (runge_kutta_step solve sympy_diff A b c F w0 t dt sbcs tol verbose'))
            \<and> fst (heun_step solve sympy_diff F w0 t dt sbcs tol verbose)
              = fst (heun_step solve sympy_diff F w0 t dt sbcs tol verbose')
            \<and> map call_system (snd (heun_step solve sympy_diff F w0 t dt sbcs tol verbose))
              = map call_system (snd (heun_step solve sympy_diff F w0 t dt sbcs tol verbose'))
            \<and> fst (rk4_step solve sympy_diff F w0 t dt sbcs tol verbose)
              = fst (rk4_step solve sympy_diff F w0 t dt sbcs tol verbose')
            \<and> map call_system (snd (rk4_step solve sympy_diff F w0 t dt sbcs tol verbose))
              = map call_system (snd (rk4_step solve sympy_diff F w0 t dt sbcs tol verbose'))
            \<and> fst (rkf_step solve sympy_diff F w0 t dt sbcs tol verbose)
              = fst (rkf_step solve sympy_diff F w0 t dt sbcs tol verbose')
            \<and> map call_system (snd (rkf_step solve sympy_diff F w0 t dt sbcs tol verbose))
              = map call_system (snd (rkf_step solve sympy_diff F w0 t dt sbcs tol verbose')))"
proof -
  have single:
    "Dummy_step prob u0 t dt bcs1 tol verbose st = Dummy_step prob u0 t dt bcs1 tol verbose' st
       \<and> ExplicitEuler_step be self u1 u0 t dt tol maxiter verbose st
           = ExplicitEuler_step be self u1 u0 t dt tol maxiter verbose' st
       \<and> ImplicitEuler_step be self u1 u0 t dt tol maxiter verbose krylov preconditioner st
           = ImplicitEuler_step be self u1 u0 t dt tol maxiter verbose' krylov preconditioner st
       \<and> Trapezoidal_step be self u1 u0 t dt tol verbose maxiter krylov preconditioner st
           = Trapezoidal_step be self u1 u0 t dt tol verbose' maxiter krylov preconditioner st"
    by (simp add: Dummy_step_def ExplicitEuler_step_def ImplicitEuler_step_def
          Trapezoidal_step_def Let_def
          solver_solve_monitor [OF assms, where verbose = verbose]
          solver_solve_monitor [OF assms, where verbose = verbose']
          cong: sum.case_cong prod.case_cong)
  have rk: "solve_ignores_monitor solve \<longrightarrow>
            fst (runge_kutta_step solve sympy_diff A b c F w0 t dt sbcs tol verbose)
              = fst (runge_kutta_step solve sympy_diff A b c F w0 t dt sbcs tol verbose')
            \<and> map call_system (snd (runge_kutta_step solve sympy_diff A b c F w0 t dt sbcs tol verbose))
              = map call_system (snd (runge_kutta_step solve sympy_diff A b c F w0 t dt sbcs tol verbose'))
            \<and> fst (heun_step solve sympy_diff F w0 t dt sbcs tol verbose)
              = fst (heun_step solve sympy_diff F w0 t dt sbcs tol verbose')
            \<and> map call_system (snd (heun_step solve sympy_diff F w0 t dt sbcs tol verbose))
              = map call_system (snd (heun_step solve sympy_diff F w0 t dt sbcs tol verbose'))
            \<and> fst (rk4_step solve sympy_diff F w0 t dt sbcs tol verbose)
              = fst (rk4_step solve sympy_diff F w0 t dt sbcs tol verbose')
            \<and> map call_system (snd (rk4_step solve sympy_diff F w0 t dt sbcs tol verbose))
              = map call_system (snd (rk4_step solve sympy_diff F w0 t dt sbcs tol verbose'))
            \<and> fst (rkf_step solve sympy_diff F w0 t dt sbcs tol verbose)
              = fst (rkf_step solve sympy_diff F w0 t dt sbcs tol verbose')
            \<and> map call_system (snd (rkf_step solve sympy_diff F w0 t dt sbcs tol verbose))
              = map call_system (snd (rkf_step solve sympy_diff F w0 t dt sbcs tol verbose'))"
  proof
    assume a: "solve_ignores_monitor solve"
    note m = runge_kutta_step_monitor [OF a, where verbose = verbose and verbose' = verbose']
    show "fst (runge_kutta_step solve sympy_diff A b c F w0 t dt sbcs tol verbose)
              = fst (runge_kutta_step solve sympy_diff A b c F w0 t dt sbcs tol verbose')
            \<and> map call_system (snd (runge_kutta_step solve sympy_diff A b c F w0 t dt sbcs tol verbose))
              = map call_system (snd (runge_kutta_step solve sympy_diff A b c F w0 t dt sbcs tol verbose'))
            \<and> fst (heun_step solve sympy_diff F w0 t dt sbcs tol verbose)
              = fst (heun_step solve sympy_diff F w0 t dt sbcs tol verbose')
            \<and> map call_system (snd (heun_step solve sympy_diff F w0 t dt sbcs tol verbose))
              = map call_system (snd (heun_step solve sympy_diff F w0 t dt sbcs tol verbose'))
            \<and> fst (rk4_step solve sympy_diff F w0 t dt sbcs tol verbose)
              = fst (rk4_step solve sympy_diff F w0 t dt sbcs tol verbose')
            \<and> map call_system (snd (rk4_step solve sympy_diff F w0 t dt sbcs tol verbose))
              = map call_system (snd (rk4_step solve sympy_diff F w0 t dt sbcs tol verbose'))
            \<and> fst (rkf_step solve sympy_diff F w0 t dt sbcs tol verbose)
              = fst (rkf_step solve sympy_diff F w0 t dt sbcs tol verbose')
            \<and> map call_system (snd (rkf_step solve sympy_diff F w0 t dt sbcs tol verbose))
              = map call_system (snd (rkf_step solve sympy_diff F w0 t dt sbcs tol verbose'))"
      unfolding heun_step_def rk4_step_def rkf_step_def Let_def
      by (intro conjI) (rule m [THEN conjunct1] m [THEN conjunct2])+
  qed
  from single rk show ?thesis by (simp only: simp_thms)
qed

theorem verbose_only_monitors_witness:
  "ignores_monitor example_backend
   \<and> solve_ignores_monitor example_solve
   \<and> ExplicitEuler_step example_backend example_stepper 1 0 0 1 (1 / 10 ^ 10) 100 True
        example_store
       = ExplicitEuler_step example_backend example_stepper 1 0 0 1 (1 / 10 ^ 10) 100 False
           example_store
   \<and> ImplicitEuler_step example_backend example_stepper 1 0 0 1 (1 / 10 ^ 10) 100 True
        ''gmres'' ''ilu'' example_store
       = ImplicitEuler_step example_backend example_stepper 1 0 0 1 (1 / 10 ^ 10) 100 False
           ''gmres'' ''ilu'' example_store
   \<and> Trapezoidal_step example_backend example_stepper 1 0 0 1 (1 / 10 ^ 10) True 100
        ''gmres'' ''ilu'' example_store
       = Trapezoidal_step example_backend example_stepper 1 0 0 1 (1 / 10 ^ 10) False 100
           ''gmres'' ''ilu'' example_store
   \<and> fst (heun_step example_solve example_diff example_F [1] 0 1 [(0, (''g'', 0))]
            (1 / 10 ^ 10) True)
       = fst (heun_step example_solve example_diff example_F [1] 0 1 [(0, (''g'', 0))]
            (1 / 10 ^ 10) False)
   \<and> map call_system (snd (heun_step example_solve example_diff example_F [1] 0 1
            [(0, (''g'', 0))] (1 / 10 ^ 10) True))
       = map call_system (snd (heun_step example_solve example_diff example_F [1] 0 1
            [(0, (''g'', 0))] (1 / 10 ^ 10) False))"
proof -
  have h: "ignores_monitor example_backend"
    by (simp add: ignores_monitor_def example_backend_def diagonal_solve_def)
  have g: "solve_ignores_monitor example_solve"
    by (simp add: solve_ignores_monitor_def example_solve_def)
  show ?thesis
    using h g verbose_only_monitors [OF h, where self = example_stepper and ?u1.0 = 1
        and ?u0.0 = 0 and t = 0 and dt = 1 and tol = "1 / 10 ^ 10" and maxiter = 100
        and krylov = "''gmres''" and preconditioner = "''ilu''" and st = example_store
        and prob = example_problem and ?bcs1.0 = "[]" and verbose = True and verbose' = False
        and solve = example_solve and sympy_diff = example_diff and F = example_F
        and ?w0.0 = "[1]" and sbcs = "[(0, (''g'', 0))]" and A = "[]" and b = "[]" and c = "[]"]
    by simp
qed

subsection \<open>The Runge-Kutta driver\<close>

lemma triu_indices_mem: "(i, j) \<in> set (triu_indices s) \<longleftrightarrow> i \<le> j \<and> j < s"
proof
  assume "(i, j) \<in> set (triu_indices s)"
  then show "i \<le> j \<and> j < s" by (auto simp: triu_indices_def)
next
  assume a: "i \<le> j \<and> j < s"
  then have "i \<in> {0..<s}" and "(i, j) \<in> Pair i ` {i..<s}" by simp_all
  then have "\<exists>x\<in>{0..<s}. (i, j) \<in> Pair x ` {x..<s}" by (rule bexI [rotated])
  then show "(i, j) \<in> set (triu_indices s)" by (simp add: triu_indices_def)
qed

text \<open>
  On an array of numbers with at least \<open>s\<close> rows and \<open>s\<close> columns the assertion is the
  only thing the check can raise, and it looks at the entries \<open>(i, j)\<close> with
  \<open>i \<le> j < s\<close> alone.
\<close>

lemma explicit_check_array:
  assumes "A \<noteq> []" and "list_all (\<lambda>row. length row = n) A"
      and "s \<le> length A" and "s \<le> n"
  shows "explicit_check A s
           = (if list_ex (\<lambda>(i, j). 1 / 10 ^ 15 \<le> \<bar>A ! i ! j\<bar>) (triu_indices s)
              then Inl AssertionError else Inr ())"
proof -
  from assms(1) have "hd A \<in> set A" by simp
  with assms(2) have hd: "length (hd A) = n" by (simp add: list_all_iff)
  with assms(2) have rect: "list_all (\<lambda>row. length row = length (hd A)) A" by simp
  have inr: "\<not> list_ex (\<lambda>(i, j). \<not> (i < length A \<and> j < length (hd A))) (triu_indices s)"
  proof
    assume "list_ex (\<lambda>(i, j). \<not> (i < length A \<and> j < length (hd A))) (triu_indices s)"
    then obtain p q where m: "(p, q) \<in> set (triu_indices s)"
      and bad: "\<not> (p < length A \<and> q < length (hd A))"
      unfolding list_ex_iff by auto
    from m have "p \<le> q" "q < s" by (simp_all add: triu_indices_mem)
    with assms(3,4) hd bad show False by simp
  qed
  have small: "list_all (\<lambda>(i, j). \<bar>A ! i ! j\<bar> < 1 / 10 ^ 15) (triu_indices s)
                 = (\<not> list_ex (\<lambda>(i, j). 1 / 10 ^ 15 \<le> \<bar>A ! i ! j\<bar>) (triu_indices s))"
    unfolding list_all_iff list_ex_iff by (auto simp: not_le)
  from assms(1) rect inr small show ?thesis
    by (simp add: explicit_check_def)
qed

lemma stages_trace_grows:
  "length tr \<le> length (snd (stages solve F A c u0 t dt sp js k bcs1 tr))"
proof (induction js arbitrary: k bcs1 tr)
  case Nil
  then show ?case by simp
next
  case (Cons i js)
  show ?case
  proof (cases "length c \<le> i")
    case True
    then show ?thesis by simp
  next
    case False
    let ?L = "F (t + c ! i * dt) (stage_state A dt u0 k i)"
    let ?bcs = "map (set_t (t + c ! i * dt)) bcs1"
    let ?tr = "tr @ [\<lparr>sc_form = UserForm ?L, sc_bcs = ?bcs, sc_parameters = sp\<rparr>]"
    show ?thesis
    proof (cases "solve (UserForm ?L) ?bcs sp")
      case (Inl e)
      with False show ?thesis by (simp add: Let_def)
    next
      case (Inr ki)
      have "length ?tr \<le> length (snd (stages solve F A c u0 t dt sp js (k @ [ki]) ?bcs ?tr))"
        by (rule Cons.IH)
      with False Inr show ?thesis by (simp add: Let_def)
    qed
  qed
qed

text \<open>
  Past the check, the driver stops without a solve only when \<open>c\<close> has no entry for the
  first stage.
\<close>

lemma runge_kutta_step_accepted:
  assumes "explicit_check A (length b) = Inr ()"
  shows "(b \<noteq> [] \<and> c = [] \<longrightarrow>
            runge_kutta_step solve sympy_diff A b c F u0 t dt sympy_dirichlet_bcs tol verbose
              = (Inl IndexError, []))
       \<and> (c \<noteq> [] \<or> b = [] \<longrightarrow>
            snd (runge_kutta_step solve sympy_diff A b c F u0 t dt sympy_dirichlet_bcs tol verbose)
              \<noteq> [])"
proof -
  let ?sp = "\<lparr>sp_linear_solver = ''iterative'', sp_symmetric = True,
              sp_preconditioner = ''hypre_amg'',
              sp_krylov_solver =
                \<lparr>relative_tolerance = tol, absolute_tolerance = 0,
                 maximum_iterations = 100, monitor_convergence = verbose\<rparr>\<rparr>"
  let ?B1 = "make_bcs sympy_diff sympy_dirichlet_bcs t dt 1"
  obtain r tr where st: "stages solve F A c u0 t dt ?sp [0..<length b] [] ?B1 [] = (r, tr)"
    by (cases "stages solve F A c u0 t dt ?sp [0..<length b] [] ?B1 []")
  have final: "snd (runge_kutta_step solve sympy_diff A b c F u0 t dt sympy_dirichlet_bcs tol verbose)
                 = [] \<Longrightarrow> tr = [] \<and> (\<exists>e. r = Inl e)"
    using assms st by (cases r) (simp_all add: runge_kutta_step_def Let_def)
  have empty_c: "b \<noteq> [] \<Longrightarrow> c = [] \<Longrightarrow> r = Inl IndexError \<and> tr = []"
  proof -
    assume "b \<noteq> []" and "c = []"
    then have "[0..<length b] = 0 # [1..<length b]" by (simp add: upt_conv_Cons)
    with st \<open>c = []\<close> show ?thesis by simp
  qed
  have some_c: "b \<noteq> [] \<Longrightarrow> c \<noteq> [] \<Longrightarrow> tr \<noteq> []"
  proof -
    assume "b \<noteq> []" and "c \<noteq> []"
    then have u: "[0..<length b] = 0 # [1..<length b]" by (simp add: upt_conv_Cons)
    let ?L = "F (t + c ! 0 * dt) (stage_state A dt u0 [] 0)"
    let ?bcs = "map (set_t (t + c ! 0 * dt)) ?B1"
    let ?tr = "[\<lparr>sc_form = UserForm ?L, sc_bcs = ?bcs, sc_parameters = ?sp\<rparr>]"
    show ?thesis
    proof (cases "solve (UserForm ?L) ?bcs ?sp")
      case (Inl e)
      with st u \<open>c \<noteq> []\<close> show ?thesis by (auto simp: Let_def)
    next
      case (Inr ki)
      have "length ?tr \<le> length (snd (stages solve F A c u0 t dt ?sp [1..<length b] ([] @ [ki]) ?bcs ?tr))"
        by (rule stages_trace_grows)
      moreover from st u \<open>c \<noteq> []\<close> Inr
      have "stages solve F A c u0 t dt ?sp [1..<length b] ([] @ [ki]) ?bcs ?tr = (r, tr)"
        by (simp add: Let_def)
      ultimately show ?thesis by auto
    qed
  qed
  have nil_b: "b = [] \<Longrightarrow> r = Inr [] \<and> tr = []"
    using st by simp
  show ?thesis
  proof (intro conjI impI)
    assume "b \<noteq> [] \<and> c = []"
    with empty_c have "r = Inl IndexError" "tr = []" by simp_all
    with assms st show "runge_kutta_step solve sympy_diff A b c F u0 t dt sympy_dirichlet_bcs tol verbose
              = (Inl IndexError, [])"
      by (simp add: runge_kutta_step_def Let_def)
  next
    assume a: "c \<noteq> [] \<or> b = []"
    show "snd (runge_kutta_step solve sympy_diff A b c F u0 t dt sympy_dirichlet_bcs tol verbose) \<noteq> []"
    proof
      assume "snd (runge_kutta_step solve sympy_diff A b c F u0 t dt sympy_dirichlet_bcs tol verbose) = []"
      from final [OF this] have f: "tr = []" "\<exists>e. r = Inl e" by simp_all
      show False
      proof (cases "b = []")
        case True
        with nil_b f show False by auto
      next
        case False
        with a have "c \<noteq> []" by simp
        from some_c [OF False this] f show False by simp
      qed
    qed
  qed
qed

lemmas rk_eval = runge_kutta_step_def heun_step_def explicit_check_def triu_indices_def
  make_bcs_def set_t_def stage_state_def example_solve_def example_diff_def example_F_def
  vadd_def smul_def vneg_def Let_def eval_nat_numeral

text \<open>
  C7, as the claim states it, fails, in four ways. A diagonal entry \<open>1e-16\<close> is nonzero and
  passes the assertion, and both solves are made. An entry above the diagonal outside the
  leading \<open>s\<close> by \<open>s\<close> block, \<open>s\<close> the length of \<open>b\<close>, is not looked at: the tableau passes
  and all three solves are made. A matrix with fewer than \<open>s\<close> rows and a matrix with rows
  of different lengths make the driver fail before any solve, but not with an assertion
  error.
\<close>

theorem runge_kutta_step_accepts_tiny_entry:
  "[[1 / 10 ^ 16]] ! 0 ! 0 \<noteq> (0 :: real)
   \<and> (case runge_kutta_step example_solve example_diff [[1 / 10 ^ 16]] [1] [0] example_F [1]
             0 (1 / 2) [(0, (''g'', 0))] (1 / 10 ^ 10) True of
        (r, tr) \<Rightarrow> r = Inr [1] \<and> length tr = 2)
   \<and> [[0, 0, 5], [1 / 2, 0, 0], [0, 0, 0]] ! 0 ! 2 \<noteq> (0 :: real)
   \<and> (case runge_kutta_step example_solve example_diff [[0, 0, 5], [1 / 2, 0, 0], [0, 0, 0]]
             [1 / 2, 1 / 2] [0, 1] example_F [1] 0 1 [(0, (''g'', 0))] (1 / 10 ^ 10) True of
        (r, tr) \<Rightarrow> r = Inr [5 / 4] \<and> length tr = 3)
   \<and> [[1]] ! 0 ! 0 \<noteq> (0 :: real)
   \<and> runge_kutta_step example_solve example_diff [[1]] [1 / 2, 1 / 2] [0, 1] example_F [1] 0 1
        [(0, (''g'', 0))] (1 / 10 ^ 10) True = (Inl IndexError, [])
   \<and> [[0, 1], [1 / 2]] ! 0 ! 1 \<noteq> (0 :: real)
   \<and> runge_kutta_step example_solve example_diff [[0, 1], [1 / 2]] [1 / 2, 1 / 2] [0, 1]
        example_F [1] 0 1 [(0, (''g'', 0))] (1 / 10 ^ 10) True = (Inl ValueError, [])"
  by (simp add: rk_eval)

text \<open>
  C7, amended. For every tableau whose matrix is an array of numbers with at least \<open>s\<close>
  rows and \<open>s\<close> columns, \<open>s\<close> the length of \<open>b\<close>: \<open>runge_kutta_step\<close> fails with an assertion
  error, having made no solve, exactly when an entry \<open>(i, j)\<close> with \<open>i \<le> j < s\<close> has an
  absolute value of at least \<open>1e-15\<close>. When every such entry is smaller, the tableau is
  accepted: the driver goes on to its solves, and makes at least one unless \<open>c\<close> is empty
  where \<open>b\<close> is not.
\<close>

theorem runge_kutta_step_rejects:
  assumes "A \<noteq> []" and "list_all (\<lambda>row. length row = n) A"
      and "length b \<le> length A" and "length b \<le> n"
  shows "(runge_kutta_step solve sympy_diff A b c F u0 t dt sympy_dirichlet_bcs tol verbose
            = (Inl AssertionError, []))
           = list_ex (\<lambda>(i, j). 1 / 10 ^ 15 \<le> \<bar>A ! i ! j\<bar>) (triu_indices (length b))
       \<and> (\<not> list_ex (\<lambda>(i, j). 1 / 10 ^ 15 \<le> \<bar>A ! i ! j\<bar>) (triu_indices (length b)) \<longrightarrow>
            explicit_check A (length b) = Inr ()
            \<and> (c \<noteq> [] \<or> b = [] \<longrightarrow>
                 snd (runge_kutta_step solve sympy_diff A b c F u0 t dt sympy_dirichlet_bcs tol
                        verbose) \<noteq> []))"
proof (cases "list_ex (\<lambda>(i, j). 1 / 10 ^ 15 \<le> \<bar>A ! i ! j\<bar>) (triu_indices (length b))")
  case True
  with explicit_check_array [OF assms] have "explicit_check A (length b) = Inl AssertionError"
    by simp
  then have "runge_kutta_step solve sympy_diff A b c F u0 t dt sympy_dirichlet_bcs tol verbose
               = (Inl AssertionError, [])"
    by (simp add: runge_kutta_step_def)
  with True show ?thesis by simp
next
  case False
  with explicit_check_array [OF assms] have ok: "explicit_check A (length b) = Inr ()"
    by simp
  note acc = runge_kutta_step_accepted [OF ok, of c solve sympy_diff F u0 t dt
      sympy_dirichlet_bcs tol verbose]
  have "runge_kutta_step solve sympy_diff A b c F u0 t dt sympy_dirichlet_bcs tol verbose
          \<noteq> (Inl AssertionError, [])"
  proof (cases "c \<noteq> [] \<or> b = []")
    case True
    with acc have "snd (runge_kutta_step solve sympy_diff A b c F u0 t dt sympy_dirichlet_bcs
        tol verbose) \<noteq> []" by blast
    then show ?thesis by auto
  next
    case False
    with acc have "runge_kutta_step solve sympy_diff A b c F u0 t dt sympy_dirichlet_bcs tol
        verbose = (Inl IndexError, [])" by blast
    then show ?thesis by simp
  qed
  with False ok acc show ?thesis by simp
qed

theorem runge_kutta_step_rejects_witness:
  "[[0, 1 / 10 ^ 15, 7], [1 / 2, 0, 0], [0, 0, 9 :: real]] \<noteq> []
   \<and> list_all (\<lambda>row. length row = 3) [[0, 1 / 10 ^ 15, 7], [1 / 2, 0, 0], [0, 0, 9 :: real]]
   \<and> length [1 / 2, 1 / 2 :: real] \<le> length [[0, 1 / 10 ^ 15, 7], [1 / 2, 0, 0], [0, 0, 9 :: real]]
   \<and> length [1 / 2, 1 / 2 :: real] \<le> 3
   \<and> runge_kutta_step example_solve example_diff
        [[0, 1 / 10 ^ 15, 7], [1 / 2, 0, 0], [0, 0, 9]] [1 / 2, 1 / 2] [0, 1]
        example_F [1] 0 1 [(0, (''g'', 0))] (1 / 10 ^ 10) True = (Inl AssertionError, [])
   \<and> [[0, 1 / 10 ^ 16, 7], [1 / 2, 0, 0], [0, 0, 9 :: real]] \<noteq> []
   \<and> list_all (\<lambda>row. length row = 3) [[0, 1 / 10 ^ 16, 7], [1 / 2, 0, 0], [0, 0, 9 :: real]]
   \<and> length [1 / 2, 1 / 2 :: real] \<le> length [[0, 1 / 10 ^ 16, 7], [1 / 2, 0, 0], [0, 0, 9 :: real]]
   \<and> runge_kutta_step example_solve example_diff
        [[0, 1 / 10 ^ 16, 7], [1 / 2, 0, 0], [0, 0, 9]] [1 / 2, 1 / 2] [0, 1]
        example_F [1] 0 1 [(0, (''g'', 0))] (1 / 10 ^ 10) True \<noteq> (Inl AssertionError, [])
   \<and> snd (runge_kutta_step example_solve example_diff
        [[0, 1 / 10 ^ 16, 7], [1 / 2, 0, 0], [0, 0, 9]] [1 / 2, 1 / 2] [0, 1]
        example_F [1] 0 1 [(0, (''g'', 0))] (1 / 10 ^ 10) True) \<noteq> []"
proof -
  have a1: "[[0, 1 / 10 ^ 15, 7], [1 / 2, 0, 0], [0, 0, 9 :: real]] \<noteq> []" by simp
  have a2: "list_all (\<lambda>row. length row = 3) [[0, 1 / 10 ^ 15, 7], [1 / 2, 0, 0], [0, 0, 9 :: real]]"
    by simp
  have a3: "length [1 / 2, 1 / 2 :: real] \<le> length [[0, 1 / 10 ^ 15, 7], [1 / 2, 0, 0], [0, 0, 9 :: real]]"
    by simp
  have b1: "[[0, 1 / 10 ^ 16, 7], [1 / 2, 0, 0], [0, 0, 9 :: real]] \<noteq> []" by simp
  have b2: "list_all (\<lambda>row. length row = 3) [[0, 1 / 10 ^ 16, 7], [1 / 2, 0, 0], [0, 0, 9 :: real]]"
    by simp
  have b3: "length [1 / 2, 1 / 2 :: real] \<le> length [[0, 1 / 10 ^ 16, 7], [1 / 2, 0, 0], [0, 0, 9 :: real]]"
    by simp
  have n: "length [1 / 2, 1 / 2 :: real] \<le> 3" by simp
  have big: "list_ex (\<lambda>(i, j). 1 / 10 ^ 15 \<le> \<bar>[[0, 1 / 10 ^ 15, 7], [1 / 2, 0, 0], [0, 0, 9 :: real]] ! i ! j\<bar>)
               (triu_indices (length [1 / 2, 1 / 2 :: real]))"
    by (simp add: triu_indices_def eval_nat_numeral)
  have small: "\<not> list_ex (\<lambda>(i, j). 1 / 10 ^ 15 \<le> \<bar>[[0, 1 / 10 ^ 16, 7], [1 / 2, 0, 0], [0, 0, 9 :: real]] ! i ! j\<bar>)
               (triu_indices (length [1 / 2, 1 / 2 :: real]))"
    by (simp add: triu_indices_def eval_nat_numeral)
  have c: "[0, 1 :: real] \<noteq> []" by simp
  show ?thesis
    using a1 a2 a3 b1 b2 b3 n big small c
      runge_kutta_step_rejects [OF a1 a2 a3 n, where solve = example_solve
        and sympy_diff = example_diff and c = "[0, 1]" and F = example_F and ?u0.0 = "[1]"
        and t = 0 and dt = 1 and sympy_dirichlet_bcs = "[(0, (''g'', 0))]"
        and tol = "1 / 10 ^ 10" and verbose = True]
      runge_kutta_step_rejects [OF b1 b2 b3 n, where solve = example_solve
        and sympy_diff = example_diff and c = "[0, 1]" and F = example_F and ?u0.0 = "[1]"
        and t = 0 and dt = 1 and sympy_dirichlet_bcs = "[(0, (''g'', 0))]"
        and tol = "1 / 10 ^ 10" and verbose = True]
    by (simp only: simp_thms)
qed

text \<open>
  C1. Heun's method for \<open>F(u) = -u\<close>, \<open>u0 = 1\<close>, \<open>dt = 0.1\<close>: the stage values are \<open>-1\<close> and
  \<open>-14/15\<close>, so \<open>u0 + dt (b0 k0 + b1 k1)\<close> is \<open>181/200\<close>; the final solve of the driver has the
  mass form of \<open>201/200\<close> as right-hand side, which is \<open>u0 + dt (u0 + b0 k0 + b1 k1)\<close>.
\<close>

theorem heun_step_final_rhs:
  "case heun_step example_solve example_diff example_F [1] 0 (1 / 10) [] (1 / 10 ^ 10) True of
     (r, tr) \<Rightarrow>
       map sc_form tr = [UserForm [- 1], UserForm [- (14 / 15)], MassForm [201 / 200]]
       \<and> r = Inr [201 / 200]
       \<and> vadd [1] (smul (1 / 10) (vadd (smul (1 / 4) [- 1]) (smul (3 / 4) [- (14 / 15)])))
           = [181 / 200]"
  by (simp add: rk_eval)

text \<open>
  C2. Heun's method with one boundary expression \<open>g\<close>, \<open>t = 0\<close>, \<open>dt = 1\<close>: the stage solves
  receive the first derivative of \<open>g\<close>, and the assignments \<^verbatim>\<open>g.t = t + c[i] * dt\<close> have set
  the attribute of the constraint objects to \<open>0\<close> and \<open>2/3\<close>; the expressions the constraints
  evaluate still have the parameter \<open>t = t + dt = 1\<close> they were built with.
\<close>

theorem heun_step_stage_bcs:
  "case heun_step example_solve example_diff example_F [1] 0 1 [(0, (''g'', 0))]
          (1 / 10 ^ 10) True of
     (r, tr) \<Rightarrow>
       map (map (code \<circ> bc_value) \<circ> sc_bcs) tr = [[(''g'', 1)], [(''g'', 1)], [(''g'', 0)]]
       \<and> map (map attr_t \<circ> sc_bcs) tr = [[Some 0], [Some (2 / 3)], [Some 1]]
       \<and> map (map (t_param \<circ> bc_value) \<circ> sc_bcs) tr = [[1], [1], [1]]"
  by (simp add: rk_eval)

end
